theory Spec2Isabelle
  imports Complex_Main "HOL-Library.Char_ord" "HOL-Library.List_Lexorder"
    "HOL-Library.Product_Lexorder" "HOL-Library.Sublist"
begin

section \<open>Values, errors and list access\<close>

text \<open>
  The notebook \<^verbatim>\<open>eval-report.ipynb\<close> works on pandas tables whose numeric cells are
  floating-point numbers.  A cell is either a number or the missing value \<^verbatim>\<open>NaN\<close>;
  numbers are modelled as reals (rounding is not modelled).
\<close>

datatype cell = NaN | Val real

text \<open>Python's \<^verbatim>\<open>p > a\<close> on floats: every comparison with \<^verbatim>\<open>NaN\<close> is false.\<close>

fun cell_gt :: "cell \<Rightarrow> real \<Rightarrow> bool" where
  "cell_gt NaN a = False"
| "cell_gt (Val x) a = (a < x)"

fun cell_lt :: "cell \<Rightarrow> real \<Rightarrow> bool" where
  "cell_lt NaN a = False"
| "cell_lt (Val x) a = (x < a)"

text \<open>
  Exceptions are values.  \<open>LibraryError\<close> carries the message of an exception raised
  inside pandas or scipy (a parse error, a failed statistical test).
\<close>

datatype error = IndexError | KeyError | ValueError | LibraryError string

text \<open>\<^verbatim>\<open>xs[i]\<close> for a non-negative index: out of range raises \<^verbatim>\<open>IndexError\<close>.\<close>

definition getitem :: "'a list \<Rightarrow> nat \<Rightarrow> error + 'a" where
  "getitem xs i = (if i < length xs then Inr (xs ! i) else Inl IndexError)"

section \<open>The metric table\<close>

text \<open>
  \<^verbatim>\<open>results\<close> is indexed by (dataset, algorithm, user) and has the columns
  \<^verbatim>\<open>nrecs\<close>, \<^verbatim>\<open>precision\<close>, \<^verbatim>\<open>recip_rank\<close>, \<^verbatim>\<open>ndcg\<close> and \<^verbatim>\<open>ntruth\<close>.
\<close>

record metric_row =
  dataset :: string
  algorithm :: string
  user :: int
  nrecs :: cell
  precision :: cell
  recip_rank :: cell
  ndcg :: cell
  ntruth :: cell

type_synonym metric_table = "metric_row list"

text \<open>\<^verbatim>\<open>results.fillna(0)\<close>: every missing cell of every column becomes the fill value;
  the index is left as it is.\<close>

fun fill :: "cell \<Rightarrow> cell \<Rightarrow> cell" where
  "fill v NaN = v"
| "fill v (Val x) = Val x"

definition fillna_row :: "cell \<Rightarrow> metric_row \<Rightarrow> metric_row" where
  "fillna_row v r =
     r\<lparr>nrecs := fill v (nrecs r), precision := fill v (precision r),
       recip_rank := fill v (recip_rank r), ndcg := fill v (ndcg r),
       ntruth := fill v (ntruth r)\<rparr>"

definition fillna :: "cell \<Rightarrow> metric_table \<Rightarrow> metric_table" where
  "fillna v t = map (fillna_row v) t"

section \<open>Significance testing\<close>

text \<open>
  \<^verbatim>\<open>for alg, data in results.reset_index().groupby("algorithm")\<close>: the groups come in
  sorted order of the algorithm label, each with its rows in table order.
\<close>

definition groupby_algorithm :: "metric_table \<Rightarrow> (string \<times> metric_table) list" where
  "groupby_algorithm t =
     map (\<lambda>a. (a, filter (\<lambda>r. algorithm r = a) t)) (sort (remdups (map algorithm t)))"

text \<open>\<^verbatim>\<open>itertools.combinations(xs, 2)\<close>.\<close>

fun combinations2 :: "'a list \<Rightarrow> ('a \<times> 'a) list" where
  "combinations2 [] = []"
| "combinations2 (x # xs) = map (Pair x) xs @ combinations2 xs"

text \<open>\<^verbatim>\<open>n_compare = list(combinations(list(range(4)), 2))\<close>, the same in all three sections.\<close>

definition n_compare :: "(nat \<times> nat) list" where
  "n_compare = combinations2 [0..<4]"

record wilcox_result =
  Pair_label :: "string \<times> string"
  Statistics :: cell
  p_value :: cell
  Decision :: string

text \<open>
  The statistical tests are scipy functions; they are parameters of the model.  Each
  returns the pair (statistic, p-value) or raises.
\<close>

type_synonym friedman_fn =
  "cell list \<Rightarrow> cell list \<Rightarrow> cell list \<Rightarrow> cell list \<Rightarrow> error + (cell \<times> cell)"
type_synonym wilcoxon_fn = "cell list \<Rightarrow> cell list \<Rightarrow> error + (cell \<times> cell)"

text \<open>
  The three definitions of \<^verbatim>\<open>wilcox_bonf\<close>, one per metric section.  Each reads the
  global \<^verbatim>\<open>n_compare\<close> when it is called, here the argument \<open>nc\<close>.
\<close>

definition wilcox_bonf_precision ::
  "wilcoxon_fn \<Rightarrow> (nat \<times> nat) list \<Rightarrow> cell list \<Rightarrow> cell list \<Rightarrow> string \<times> string
     \<Rightarrow> error + wilcox_result" where
  "wilcox_bonf_precision wilcoxon nc data1 data2 alg_pair =
     (let alpha = 0.05 in
      case wilcoxon data1 data2 of
        Inl e \<Rightarrow> Inl e
      | Inr (stat, p) \<Rightarrow>
          (let new_alpha = alpha / real (length nc);
               decision = (if cell_gt p new_alpha
                           then ''Metric is the same (fail to reject H0)''
                           else ''Metric is different (reject H0)'')
           in Inr \<lparr>Pair_label = alg_pair, Statistics = stat, p_value = p,
                   Decision = decision\<rparr>))"

definition wilcox_bonf_ndcg ::
  "wilcoxon_fn \<Rightarrow> (nat \<times> nat) list \<Rightarrow> cell list \<Rightarrow> cell list \<Rightarrow> string \<times> string
     \<Rightarrow> error + wilcox_result" where
  "wilcox_bonf_ndcg wilcoxon nc data1 data2 alg_pair =
     (let alpha = 0.05 in
      case wilcoxon data1 data2 of
        Inl e \<Rightarrow> Inl e
      | Inr (stat, p) \<Rightarrow>
          (let new_alpha = alpha / real (length nc);
               decision = (if cell_gt p new_alpha
                           then ''Metric is the same (fail to reject H0)''
                           else ''Metric is different (reject H0)'')
           in Inr \<lparr>Pair_label = alg_pair, Statistics = stat, p_value = p,
                   Decision = decision\<rparr>))"

definition wilcox_bonf_recip_rank ::
  "wilcoxon_fn \<Rightarrow> (nat \<times> nat) list \<Rightarrow> cell list \<Rightarrow> cell list \<Rightarrow> string \<times> string
     \<Rightarrow> error + wilcox_result" where
  "wilcox_bonf_recip_rank wilcoxon nc data1 data2 alg_pair =
     (let alpha = 0.05 in
      case wilcoxon data1 data2 of
        Inl e \<Rightarrow> Inl e
      | Inr (stat, p) \<Rightarrow>
          (let new_alpha = alpha / real (length nc);
               decision = (if cell_gt p new_alpha
                           then ''Metric is the same (fail to reject H0)''
                           else ''Metric is different (reject H0)'')
           in Inr \<lparr>Pair_label = alg_pair, Statistics = stat, p_value = p,
                   Decision = decision\<rparr>))"

text \<open>What a section prints: the Friedman line, then one line per pairwise test.\<close>

datatype line = FriedmanLine cell cell | PairLine wilcox_result

text \<open>
  The Friedman cell.  Its loop over the groups fills \<^verbatim>\<open>alg_names\<close> with the labels
  and \<^verbatim>\<open>alg_vals\<close> with the metric column of each group.
\<close>

definition alg_names_of :: "metric_table \<Rightarrow> string list" where
  "alg_names_of results = map fst (groupby_algorithm results)"

definition alg_vals_of :: "(metric_row \<Rightarrow> cell) \<Rightarrow> metric_table \<Rightarrow> cell list list" where
  "alg_vals_of metric results = map (\<lambda>g. map metric (snd g)) (groupby_algorithm results)"


text \<open>
  Then \<^verbatim>\<open>friedmanchisquare(alg_vals[0], alg_vals[1], alg_vals[2], alg_vals[3])\<close>, the
  arguments evaluated left to right.
\<close>

definition friedman_cell ::
  "friedman_fn \<Rightarrow> (metric_row \<Rightarrow> cell) \<Rightarrow> metric_table
     \<Rightarrow> error + (string list \<times> cell list list \<times> cell \<times> cell)" where
  "friedman_cell friedmanchisquare metric results =
     (let alg_names = alg_names_of results;
          alg_vals = alg_vals_of metric results
      in case getitem alg_vals 0 of Inl e \<Rightarrow> Inl e | Inr v0 \<Rightarrow>
         (case getitem alg_vals 1 of Inl e \<Rightarrow> Inl e | Inr v1 \<Rightarrow>
         (case getitem alg_vals 2 of Inl e \<Rightarrow> Inl e | Inr v2 \<Rightarrow>
         (case getitem alg_vals 3 of Inl e \<Rightarrow> Inl e | Inr v3 \<Rightarrow>
         (case friedmanchisquare v0 v1 v2 v3 of
            Inl e \<Rightarrow> Inl e
          | Inr (stat, p) \<Rightarrow> Inr (alg_names, alg_vals, stat, p))))))"

text \<open>
  The post-hoc cell's loop \<^verbatim>\<open>for idx in n_compare\<close>.  \<open>out\<close> holds the lines printed
  so far; an exception ends the run and keeps them.
\<close>

fun posthoc_loop ::
  "(cell list \<Rightarrow> cell list \<Rightarrow> string \<times> string \<Rightarrow> error + wilcox_result)
     \<Rightarrow> string list \<Rightarrow> cell list list \<Rightarrow> (nat \<times> nat) list \<Rightarrow> line list
     \<Rightarrow> line list \<times> error option" where
  "posthoc_loop wilcox_bonf alg_names alg_vals [] out = (out, None)"
| "posthoc_loop wilcox_bonf alg_names alg_vals (idx # rest) out =
     (case getitem alg_vals (fst idx) of Inl e \<Rightarrow> (out, Some e) | Inr d1 \<Rightarrow>
     (case getitem alg_vals (snd idx) of Inl e \<Rightarrow> (out, Some e) | Inr d2 \<Rightarrow>
     (case getitem alg_names (fst idx) of Inl e \<Rightarrow> (out, Some e) | Inr n1 \<Rightarrow>
     (case getitem alg_names (snd idx) of Inl e \<Rightarrow> (out, Some e) | Inr n2 \<Rightarrow>
     (case wilcox_bonf d1 d2 (n1, n2) of
        Inl e \<Rightarrow> (out, Some e)
      | Inr result \<Rightarrow>
          posthoc_loop wilcox_bonf alg_names alg_vals rest (out @ [PairLine result]))))))"

text \<open>
  One metric section, run top to bottom: the Friedman cell, its print, then the post-hoc
  cell.  The post-hoc cell does not read the Friedman p-value.
\<close>

definition run_section ::
  "(wilcoxon_fn \<Rightarrow> (nat \<times> nat) list \<Rightarrow> cell list \<Rightarrow> cell list \<Rightarrow> string \<times> string
      \<Rightarrow> error + wilcox_result)
     \<Rightarrow> friedman_fn \<Rightarrow> wilcoxon_fn \<Rightarrow> (metric_row \<Rightarrow> cell) \<Rightarrow> metric_table
     \<Rightarrow> line list \<times> error option" where
  "run_section wilcox_bonf friedmanchisquare wilcoxon metric results =
     (case friedman_cell friedmanchisquare metric results of
        Inl e \<Rightarrow> ([], Some e)
      | Inr (alg_names, alg_vals, stat, p) \<Rightarrow>
          posthoc_loop (wilcox_bonf wilcoxon n_compare) alg_names alg_vals n_compare
            [FriedmanLine stat p])"

definition precision_section ::
  "friedman_fn \<Rightarrow> wilcoxon_fn \<Rightarrow> metric_table \<Rightarrow> line list \<times> error option" where
  "precision_section f w results = run_section wilcox_bonf_precision f w precision results"

definition ndcg_section ::
  "friedman_fn \<Rightarrow> wilcoxon_fn \<Rightarrow> metric_table \<Rightarrow> line list \<times> error option" where
  "ndcg_section f w results = run_section wilcox_bonf_ndcg f w ndcg results"

definition recip_rank_section ::
  "friedman_fn \<Rightarrow> wilcoxon_fn \<Rightarrow> metric_table \<Rightarrow> line list \<times> error option" where
  "recip_rank_section f w results =
     run_section wilcox_bonf_recip_rank f w recip_rank results"


text \<open>The pair labels of the pairwise lines of an output, in printing order.\<close>

fun pair_labels :: "line list \<Rightarrow> (string \<times> string) list" where
  "pair_labels [] = []"
| "pair_labels (FriedmanLine stat p # ls) = pair_labels ls"
| "pair_labels (PairLine result # ls) = Pair_label result # pair_labels ls"

section \<open>Metric computation\<close>

text \<open>
  The rows of the recommendation table and of the ground-truth table, with the columns the
  file schema names.
\<close>

record rec_row =
  r_dataset :: string
  r_algorithm :: string
  r_user :: int
  r_item :: int
  r_score :: cell

record truth_row =
  t_user :: int
  t_item :: int
  t_rating :: cell

text \<open>
  \<^verbatim>\<open>rla.compute(recs, test, include_missing=True)\<close> is lenskit's; it is a parameter of
  the model.  The cell keeps its result only after \<^verbatim>\<open>fillna(0)\<close>.
\<close>

type_synonym compute_fn = "rec_row list \<Rightarrow> truth_row list \<Rightarrow> bool \<Rightarrow> error + metric_table"

definition compute_metrics ::
  "compute_fn \<Rightarrow> rec_row list \<Rightarrow> truth_row list \<Rightarrow> error + metric_table" where
  "compute_metrics compute recs test =
     (case compute recs test True of
        Inl e \<Rightarrow> Inl e
      | Inr results \<Rightarrow> Inr (fillna (Val 0) results))"


text \<open>A row without a missing value in any column.\<close>

definition no_null :: "metric_row \<Rightarrow> bool" where
  "no_null r = (nrecs r \<noteq> NaN \<and> precision r \<noteq> NaN \<and> recip_rank r \<noteq> NaN
                 \<and> ndcg r \<noteq> NaN \<and> ntruth r \<noteq> NaN)"

text \<open>
  A pair of an algorithm that has recommendations and a user that has ground truth, with
  no recommendation of the algorithm for the user.
\<close>

definition missing_pair :: "rec_row list \<Rightarrow> truth_row list \<Rightarrow> string \<Rightarrow> int \<Rightarrow> bool" where
  "missing_pair recs test a u =
     (a \<in> set (map r_algorithm recs) \<and> u \<in> set (map t_user test)
      \<and> \<not> list_ex (\<lambda>x. r_algorithm x = a \<and> r_user x = u) recs)"

section \<open>Prediction RMSE\<close>

text \<open>
  The prediction table as the RMSE cell reads it: grouped by \<^verbatim>\<open>algorithm\<close> and
  \<^verbatim>\<open>user\<close>, with the columns \<^verbatim>\<open>prediction\<close> and \<^verbatim>\<open>rating\<close> of the prediction
  files themselves.
\<close>

record pred_row =
  p_dataset :: string
  p_algorithm :: string
  p_user :: int
  p_item :: int
  prediction :: cell
  rating :: cell

text \<open>\<^verbatim>\<open>preds.groupby(['algorithm', 'user'])\<close>: groups in sorted key order.\<close>

definition groupby_algorithm_user ::
  "pred_row list \<Rightarrow> ((string \<times> int) \<times> pred_row list) list" where
  "groupby_algorithm_user t =
     map (\<lambda>k. (k, filter (\<lambda>r. (p_algorithm r, p_user r) = k) t))
       (sort (remdups (map (\<lambda>r. (p_algorithm r, p_user r)) t)))"

text \<open>\<^verbatim>\<open>.apply(f)\<close> over the groups: the first exception ends it.\<close>

fun apply_groups :: "('a \<Rightarrow> error + 'b) \<Rightarrow> 'a list \<Rightarrow> error + 'b list" where
  "apply_groups f [] = Inr []"
| "apply_groups f (g # gs) =
     (case f g of
        Inl e \<Rightarrow> Inl e
      | Inr y \<Rightarrow> (case apply_groups f gs of Inl e \<Rightarrow> Inl e | Inr ys \<Rightarrow> Inr (y # ys)))"

text \<open>
  \<^verbatim>\<open>user_rmse\<close>: one (algorithm, user, RMSE) row per group.  \<open>rmse\<close> is lenskit's
  \<^verbatim>\<open>lenskit.metrics.predict.rmse\<close>, a parameter.
\<close>

type_synonym rmse_fn = "cell list \<Rightarrow> cell list \<Rightarrow> error + cell"

definition user_rmse :: "rmse_fn \<Rightarrow> pred_row list \<Rightarrow> error + (string \<times> int \<times> cell) list" where
  "user_rmse rmse preds =
     apply_groups
       (\<lambda>g. case rmse (map prediction (snd g)) (map rating (snd g)) of
               Inl e \<Rightarrow> Inl e
             | Inr v \<Rightarrow> Inr (fst (fst g), snd (fst g), v))
       (groupby_algorithm_user preds)"

text \<open>
  The specification's wording of the same step: the prediction table joined against the
  ground-truth table on user and item, the rating taken from the ground truth.
\<close>

definition join_truth :: "pred_row list \<Rightarrow> truth_row list \<Rightarrow> pred_row list" where
  "join_truth preds test =
     concat (map (\<lambda>p. map (\<lambda>t. p\<lparr>rating := t_rating t\<rparr>)
                        (filter (\<lambda>t. t_user t = p_user p \<and> t_item t = p_item p) test))
                 preds)"

definition user_rmse_joined ::
  "rmse_fn \<Rightarrow> pred_row list \<Rightarrow> truth_row list \<Rightarrow> error + (string \<times> int \<times> cell) list" where
  "user_rmse_joined rmse preds test = user_rmse rmse (join_truth preds test)"

text \<open>
  The textbook root mean squared error on complete data, used where a concrete
  \<open>rmse\<close> is needed; a missing value raises, as lenskit's default does.
\<close>

fun known_values :: "cell list \<Rightarrow> real list option" where
  "known_values [] = Some []"
| "known_values (NaN # cs) = None"
| "known_values (Val x # cs) = (case known_values cs of None \<Rightarrow> None | Some xs \<Rightarrow> Some (x # xs))"

definition rmse_std :: rmse_fn where
  "rmse_std ps ts =
     (case (known_values ps, known_values ts) of
        (Some xs, Some ys) \<Rightarrow>
          Inr (Val (sqrt (sum_list (map (\<lambda>(x, y). (x - y)\<^sup>2) (zip xs ys)) / real (length xs))))
      | _ \<Rightarrow> Inl ValueError)"

section \<open>Loading\<close>

text \<open>
  A path of the file system: a file with a name and a content, or a directory with a name
  and entries.  What a content is is left open.
\<close>

datatype 'c path = File string 'c | Dir string "'c path list"

fun name :: "'c path \<Rightarrow> string" where
  "name (File n c) = n"
| "name (Dir n es) = n"

text \<open>
  \<^verbatim>\<open>Path.glob\<close> and \<^verbatim>\<open>pd.read_csv\<close> are library functions and parameters of the
  model.  \<open>glob p pattern\<close> lists the paths under \<open>p\<close> that match the pattern, wildcards
  and all, in the order the file system yields them; \<open>read_csv\<close> reads one path into a
  table or raises.
\<close>

type_synonym 'c glob_fn = "'c path \<Rightarrow> string \<Rightarrow> 'c path list"

text \<open>\<^verbatim>\<open>s.split(sep)\<close> for a one-character separator.\<close>

fun str_split :: "char \<Rightarrow> string \<Rightarrow> string list" where
  "str_split sep [] = [[]]"
| "str_split sep (c # cs) =
     (if c = sep then [] # str_split sep cs
      else (case str_split sep cs of
              [] \<Rightarrow> [[c]]
            | w # ws \<Rightarrow> (c # w) # ws))"

text \<open>A loaded table: column names and rows of cells.\<close>

datatype val = VNum cell | VStr string

record frame =
  columns :: "string list"
  rows :: "val list list"

type_synonym 'c read_csv_fn = "'c path \<Rightarrow> error + frame"

text \<open>\<^verbatim>\<open>df[c] = v\<close>: overwrite the column, or add it as the last one.\<close>

definition setitem :: "string \<Rightarrow> val \<Rightarrow> frame \<Rightarrow> frame" where
  "setitem c v f =
     (if c \<in> set (columns f)
      then f\<lparr>rows := map (\<lambda>r. map (\<lambda>(c', x). if c' = c then v else x) (zip (columns f) r))
                         (rows f)\<rparr>
      else f\<lparr>columns := columns f @ [c], rows := map (\<lambda>r. r @ [v]) (rows f)\<rparr>)"

text \<open>The distinct elements of a list, each at the place of its first occurrence.\<close>

definition first_seen :: "'a list \<Rightarrow> 'a list" where
  "first_seen xs = rev (remdups (rev xs))"

text \<open>
  \<^verbatim>\<open>pd.concat(frames, ignore_index=True)\<close>: an empty list raises \<^verbatim>\<open>ValueError\<close>;
  otherwise the rows of all frames over the union of their columns, the columns in the
  order of their first appearance, a cell missing where a frame lacks the column.
\<close>

definition realign :: "string list \<Rightarrow> frame \<Rightarrow> val list list" where
  "realign cols f =
     map (\<lambda>r. map (\<lambda>c. case map_of (zip (columns f) r) c of
                          None \<Rightarrow> VNum NaN
                        | Some x \<Rightarrow> x) cols) (rows f)"

definition pd_concat :: "frame list \<Rightarrow> error + frame" where
  "pd_concat fs =
     (if fs = [] then Inl ValueError
      else (let cols = first_seen (concat (map columns fs))
            in Inr \<lparr>columns = cols, rows = concat (map (realign cols) fs)\<rparr>))"

text \<open>
  The inner loop \<^verbatim>\<open>for file in fld.glob(pat)\<close>, over the files that the glob found:
  read the file, tag it with the first two parts of the directory name, append it to the
  list.
\<close>

fun read_files ::
  "'c read_csv_fn \<Rightarrow> string \<Rightarrow> 'c path list \<Rightarrow> frame list \<Rightarrow> error + frame list" where
  "read_files read_csv fld_name [] acc = Inr acc"
| "read_files read_csv fld_name (file # rest) acc =
     (case read_csv file of Inl e \<Rightarrow> Inl e | Inr rec \<Rightarrow>
     (case getitem (str_split CHR ''-'' fld_name) 0 of Inl e \<Rightarrow> Inl e | Inr ds \<Rightarrow>
     (case getitem (str_split CHR ''-'' fld_name) 1 of Inl e \<Rightarrow> Inl e | Inr alg \<Rightarrow>
        read_files read_csv fld_name rest
          (acc @ [setitem ''algorithm'' (VStr alg) (setitem ''dataset'' (VStr ds) rec)]))))"

text \<open>The outer loop \<^verbatim>\<open>for fld in dirs\<close>.\<close>

fun read_dirs ::
  "'c glob_fn \<Rightarrow> 'c read_csv_fn \<Rightarrow> string \<Rightarrow> 'c path list \<Rightarrow> frame list
     \<Rightarrow> error + frame list" where
  "read_dirs glob read_csv pat [] acc = Inr acc"
| "read_dirs glob read_csv pat (fld # dirs) acc =
     (case read_files read_csv (name fld) (glob fld pat) acc of
        Inl e \<Rightarrow> Inl e
      | Inr acc' \<Rightarrow> read_dirs glob read_csv pat dirs acc')"

text \<open>\<^verbatim>\<open>dirs = [fld for fld in output_root.glob(f'{dataset}-*')]\<close>.\<close>

definition dirs_of :: "'c glob_fn \<Rightarrow> string \<Rightarrow> 'c path \<Rightarrow> 'c path list" where
  "dirs_of glob dataset_id output_root = glob output_root (dataset_id @ ''-*'')"

text \<open>
  The two loading cells.  (\<^verbatim>\<open>astype\<close> of the two tag columns to categories changes no
  value.)
\<close>

definition load_recs ::
  "'c glob_fn \<Rightarrow> 'c read_csv_fn \<Rightarrow> string \<Rightarrow> 'c path \<Rightarrow> error + frame" where
  "load_recs glob read_csv dataset_id output_root =
     (case read_dirs glob read_csv ''recs-*'' (dirs_of glob dataset_id output_root) [] of
        Inl e \<Rightarrow> Inl e
      | Inr recs \<Rightarrow> pd_concat recs)"

definition load_preds ::
  "'c glob_fn \<Rightarrow> 'c read_csv_fn \<Rightarrow> string \<Rightarrow> 'c path \<Rightarrow> error + frame" where
  "load_preds glob read_csv dataset_id output_root =
     (case read_dirs glob read_csv ''pred-*'' (dirs_of glob dataset_id output_root) [] of
        Inl e \<Rightarrow> Inl e
      | Inr preds \<Rightarrow> pd_concat preds)"

text \<open>The files a load reads, in reading order.\<close>

definition matched_files :: "'c glob_fn \<Rightarrow> string \<Rightarrow> string \<Rightarrow> 'c path \<Rightarrow> 'c path list" where
  "matched_files glob pat dataset_id output_root =
     concat (map (\<lambda>fld. glob fld pat) (dirs_of glob dataset_id output_root))"

text \<open>
  The table one file contributes, parsed and tagged with the two labels, and the tables of
  all files of a load, in reading order.
\<close>

definition tag :: "'c read_csv_fn \<Rightarrow> string \<Rightarrow> 'c path \<Rightarrow> frame" where
  "tag read_csv fld_name file =
     setitem ''algorithm'' (VStr (str_split CHR ''-'' fld_name ! 1))
       (setitem ''dataset'' (VStr (str_split CHR ''-'' fld_name ! 0)) (projr (read_csv file)))"

definition tagged_frames ::
  "'c glob_fn \<Rightarrow> 'c read_csv_fn \<Rightarrow> string \<Rightarrow> string \<Rightarrow> 'c path \<Rightarrow> frame list" where
  "tagged_frames glob read_csv pat dataset_id output_root =
     concat (map (\<lambda>fld. map (tag read_csv (name fld)) (glob fld pat))
                 (dirs_of glob dataset_id output_root))"

section \<open>Example inputs\<close>

text \<open>Stand-ins for the scipy tests with a fixed outcome.\<close>

definition friedman_const :: "cell \<times> cell \<Rightarrow> friedman_fn" where
  "friedman_const r v0 v1 v2 v3 = Inr r"

definition wilcoxon_const :: "cell \<times> cell \<Rightarrow> wilcoxon_fn" where
  "wilcoxon_const r data1 data2 = Inr r"

text \<open>A complete row of the metric table, all three metrics equal to \<open>x\<close>.\<close>

definition example_row :: "string \<Rightarrow> int \<Rightarrow> real \<Rightarrow> metric_row" where
  "example_row a u x =
     \<lparr>dataset = ''ml100k'', algorithm = a, user = u, nrecs = Val 10,
      precision = Val x, recip_rank = Val x, ndcg = Val x, ntruth = Val 5\<rparr>"

text \<open>Metric tables with one, three, four and five algorithms.\<close>

definition results1 :: metric_table where
  "results1 = [example_row ''A'' 1 0.5, example_row ''A'' 2 0.25]"

definition results3 :: metric_table where
  "results3 = [example_row ''B'' 1 0.5, example_row ''A'' 1 0.25, example_row ''C'' 1 1]"

definition results4 :: metric_table where
  "results4 = [example_row ''B'' 1 0.5, example_row ''A'' 1 0.25, example_row ''D'' 1 0,
               example_row ''C'' 1 1]"

definition results5 :: metric_table where
  "results5 = [example_row ''B'' 1 0.5, example_row ''A'' 1 0.25, example_row ''D'' 1 0,
               example_row ''C'' 1 1, example_row ''E'' 1 0.75]"

text \<open>The line of a pairwise test that came out with statistic 0 and p-value 0.5.\<close>

definition same_line :: "string \<times> string \<Rightarrow> line" where
  "same_line pr =
     PairLine \<lparr>Pair_label = pr, Statistics = Val 0, p_value = Val 0.5,
               Decision = ''Metric is the same (fail to reject H0)''\<rparr>"

text \<open>
  A stand-in for \<^verbatim>\<open>rla.compute\<close> that returns a given table, and an example: algorithm
  \<open>A\<close> recommends item 10 to user 1 and nothing to user 2; user 1 has one ground-truth
  item, user 2 has three.  The table is the one lenskit computes with
  \<^verbatim>\<open>include_missing=True\<close>: the row of the pair (A, 2) has no metric values, and its
  \<^verbatim>\<open>ntruth\<close> is the count taken from the ground truth.
\<close>

definition compute_const :: "metric_table \<Rightarrow> compute_fn" where
  "compute_const t recs test include_missing = Inr t"

definition example_recs :: "rec_row list" where
  "example_recs =
     [\<lparr>r_dataset = ''ml100k'', r_algorithm = ''A'', r_user = 1, r_item = 10, r_score = Val 4\<rparr>]"

definition example_test :: "truth_row list" where
  "example_test =
     [\<lparr>t_user = 1, t_item = 10, t_rating = Val 5\<rparr>,
      \<lparr>t_user = 2, t_item = 20, t_rating = Val 4\<rparr>,
      \<lparr>t_user = 2, t_item = 21, t_rating = Val 3\<rparr>,
      \<lparr>t_user = 2, t_item = 22, t_rating = Val 5\<rparr>]"

definition missing_row :: metric_row where
  "missing_row =
     \<lparr>dataset = ''ml100k'', algorithm = ''A'', user = 2, nrecs = Val 0,
      precision = NaN, recip_rank = NaN, ndcg = NaN, ntruth = Val 3\<rparr>"

definition example_computed :: metric_table where
  "example_computed =
     [\<lparr>dataset = ''ml100k'', algorithm = ''A'', user = 1, nrecs = Val 1,
       precision = Val 1, recip_rank = Val 1, ndcg = Val 1, ntruth = Val 1\<rparr>,
      missing_row]"

text \<open>
  A prediction file row for user 1 and item 10 that carries the rating 5, a ground-truth
  table that agrees with it, and one that has the rating 4 for the same user and item.
\<close>

definition example_preds :: "pred_row list" where
  "example_preds =
     [\<lparr>p_dataset = ''ml100k'', p_algorithm = ''A'', p_user = 1, p_item = 10,
       prediction = Val 3, rating = Val 5\<rparr>]"

definition truth_same :: "truth_row list" where
  "truth_same = [\<lparr>t_user = 1, t_item = 10, t_rating = Val 5\<rparr>]"

definition truth_other :: "truth_row list" where
  "truth_other = [\<lparr>t_user = 1, t_item = 10, t_rating = Val 4\<rparr>]"

text \<open>
  A stand-in for \<^verbatim>\<open>wilcoxon\<close> that shows which vectors a call received: it returns
  the first score of the first vector as the statistic and the first score of the second
  vector as the p-value.
\<close>

fun wilcoxon_probe :: wilcoxon_fn where
  "wilcoxon_probe (a # as) (b # bs) = Inr (a, b)"
| "wilcoxon_probe data1 data2 = Inl ValueError"







text \<open>
  A stand-in for \<^verbatim>\<open>Path.glob\<close> on a directory tree, for a pattern of one path component:
  the entries whose name matches the pattern, in the order of the tree.  A name matches as
  \<^verbatim>\<open>fnmatch\<close> has it: \<^verbatim>\<open>*\<close> stands for any run of characters, \<^verbatim>\<open>?\<close> for any one
  character, \<^verbatim>\<open>[seq]\<close> for one character of the class and \<^verbatim>\<open>[!seq]\<close> for one not in
  it (a class may have ranges \<^verbatim>\<open>a-z\<close>, a range with its bounds out of order is empty, and
  \<^verbatim>\<open>]\<close> is a member when it comes first); a \<^verbatim>\<open>[\<close> that is not closed and every other
  character stand for themselves.
\<close>

fun entries :: "'c path \<Rightarrow> 'c path list" where
  "entries (File n c) = []"
| "entries (Dir n es) = es"

fun in_class :: "char \<Rightarrow> string \<Rightarrow> bool" where
  "in_class c (lo # m # hi # rest) =
     (if m = CHR ''-'' then (lo \<le> c \<and> c \<le> hi) \<or> in_class c rest
      else c = lo \<or> in_class c (m # hi # rest))"
| "in_class c (x # rest) = (c = x \<or> in_class c rest)"
| "in_class c [] = False"

fun until_close :: "string \<Rightarrow> (string \<times> string) option" where
  "until_close [] = None"
| "until_close (c # cs) =
     (if c = CHR '']'' then Some ([], cs)
      else (case until_close cs of
              None \<Rightarrow> None
            | Some (body, rest) \<Rightarrow> Some (c # body, rest)))"

fun bracket_lead :: "string \<Rightarrow> (string \<times> string) option" where
  "bracket_lead (c # cs) =
     (if c = CHR '']''
      then (case until_close cs of
              None \<Rightarrow> None
            | Some (body, rest) \<Rightarrow> Some (c # body, rest))
      else until_close (c # cs))"
| "bracket_lead [] = None"

fun bracket :: "string \<Rightarrow> (bool \<times> string \<times> string) option" where
  "bracket (c # cs) =
     (if c = CHR ''!''
      then (case bracket_lead cs of
              None \<Rightarrow> None
            | Some (members, rest) \<Rightarrow> Some (True, members, rest))
      else (case bracket_lead (c # cs) of
              None \<Rightarrow> None
            | Some (members, rest) \<Rightarrow> Some (False, members, rest)))"
| "bracket [] = None"

fun fnmatch :: "string \<Rightarrow> string \<Rightarrow> bool" where
  "fnmatch [] [] = True"
| "fnmatch [] (c # cs) = False"
| "fnmatch (p # ps) [] = (p = CHR ''*'' \<and> fnmatch ps [])"
| "fnmatch (p # ps) (c # cs) =
     (if p = CHR ''*'' then fnmatch ps (c # cs) \<or> fnmatch (p # ps) cs
      else if p = CHR ''?'' then fnmatch ps cs
      else if p = CHR ''[''
        then (case bracket ps of
                None \<Rightarrow> c = p \<and> fnmatch ps cs
              | Some (negated, members, rest) \<Rightarrow>
                  (in_class c members \<noteq> negated) \<and> fnmatch rest cs)
      else c = p \<and> fnmatch ps cs)"

definition glob_tree :: "'c glob_fn" where
  "glob_tree p pat = filter (\<lambda>e. fnmatch pat (name e)) (entries p)"

text \<open>
  In the examples the content of a file is what \<^verbatim>\<open>pd.read_csv\<close> makes of it: a table,
  or the exception it raises.  A directory cannot be read.
\<close>

fun read_csv_held :: "(error + frame) read_csv_fn" where
  "read_csv_held (File n c) = c"
| "read_csv_held (Dir n es) = Inl (LibraryError ''IsADirectoryError'')"

definition one_row :: frame where
  "one_row =
     \<lparr>columns = [''user'', ''item'', ''score''],
      rows = [[VNum (Val 1), VNum (Val 10), VNum (Val 4)]]\<rparr>"

text \<open>
  An output directory for the dataset \<open>ml100k\<close> with two run directories, one with a
  recommendation file and one without any; and one where the second and the third of three
  recommendation files cannot be read.
\<close>

definition example_root :: "(error + frame) path" where
  "example_root =
     Dir ''output''
       [Dir ''ml100k-ALS'' [File ''recs-1.csv'' (Inr one_row)],
        Dir ''ml100k-Pop'' []]"

definition broken_root :: "(error + frame) path" where
  "broken_root =
     Dir ''output''
       [Dir ''ml100k-ALS''
          [File ''recs-1.csv'' (Inr one_row),
           File ''recs-2.csv'' (Inl (LibraryError ''ParserError'')),
           File ''recs-3.csv'' (Inl (LibraryError ''EmptyDataError''))]]"

section \<open>Basic facts\<close>

lemma n_compare_eq: "n_compare = [(0,1), (0,2), (0,3), (1,2), (1,3), (2,3)]"
  by (simp add: n_compare_def upt_rec)

lemma length_n_compare: "length n_compare = 6"
  by (simp add: n_compare_eq)


lemma not_cell_gt: "(\<not> cell_gt p a) = (case p of NaN \<Rightarrow> True | Val x \<Rightarrow> x \<le> a)"
  by (cases p) auto

lemma alg_names_of_eq: "alg_names_of results = sort (remdups (map algorithm results))"
  by (simp add: alg_names_of_def groupby_algorithm_def comp_def)

lemma length_alg_vals_of: "length (alg_vals_of metric results) = length (alg_names_of results)"
  by (simp add: alg_vals_of_def alg_names_of_def)

lemma length_alg_names_of: "length (alg_names_of results) = card (algorithm ` set results)"
  by (simp add: alg_names_of_eq length_remdups_card_conv)

lemma distinct_alg_names_of: "distinct (alg_names_of results)"
  by (simp add: alg_names_of_eq)

lemma set_alg_names_of: "set (alg_names_of results) = algorithm ` set results"
  by (simp add: alg_names_of_eq)

lemma friedman_cell_few:
  assumes "length (alg_names_of results) < 4"
  shows "friedman_cell f metric results = Inl IndexError"
  using assms
  by (auto simp add: friedman_cell_def Let_def getitem_def length_alg_vals_of)

lemma friedman_cell_four:
  assumes "4 \<le> length (alg_names_of results)"
  shows "friedman_cell f metric results =
           (case f (alg_vals_of metric results ! 0) (alg_vals_of metric results ! 1)
                   (alg_vals_of metric results ! 2) (alg_vals_of metric results ! 3) of
              Inl e \<Rightarrow> Inl e
            | Inr (stat, p) \<Rightarrow> Inr (alg_names_of results, alg_vals_of metric results, stat, p))"
  using assms length_alg_vals_of [of metric results]
  by (auto simp add: friedman_cell_def Let_def getitem_def)

lemma pair_labels_map_PairLine: "pair_labels (map (\<lambda>x. PairLine (g x)) xs) = map (\<lambda>x. Pair_label (g x)) xs"
  by (induction xs) auto

lemma length_combinations2: "length (combinations2 xs) = length xs choose 2"
  by (induction xs) (auto simp add: numeral_2_eq_2)

lemma set_combinations2: "(a, b) \<in> set (combinations2 xs) \<Longrightarrow> a \<in> set xs \<and> b \<in> set xs"
  by (induction xs) auto

lemma distinct_combinations2: "distinct xs \<Longrightarrow> distinct (combinations2 xs)"
proof (induction xs)
  case Nil
  then show ?case by simp
next
  case (Cons x xs)
  have "distinct (map (Pair x) xs)" using Cons.prems by (simp add: distinct_map inj_on_def)
  moreover have "set (map (Pair x) xs) \<inter> set (combinations2 xs) = {}"
    using Cons.prems set_combinations2 by fastforce
  ultimately show ?case using Cons by simp
qed

lemma combinations2_not_swapped:
  "distinct xs \<Longrightarrow> (a, b) \<in> set (combinations2 xs) \<Longrightarrow> (b, a) \<notin> set (combinations2 xs) \<and> a \<noteq> b"
proof (induction xs)
  case Nil
  then show ?case by simp
next
  case (Cons x xs)
  then show ?case using set_combinations2 by fastforce
qed

lemma combinations2_covers:
  "2 \<le> length xs \<Longrightarrow> a \<in> set xs \<Longrightarrow> \<exists>p \<in> set (combinations2 xs). a = fst p \<or> a = snd p"
proof (induction xs)
  case Nil
  then show ?case by simp
next
  case (Cons x xs)
  show ?case
  proof (cases "a = x")
    case True
    from Cons.prems obtain y ys where "xs = y # ys" by (cases xs) auto
    then show ?thesis using True by auto
  next
    case False
    then have "a \<in> set xs" using Cons.prems by simp
    then show ?thesis by force
  qed
qed

lemma combinations2_nth:
  "length xs = 4 \<Longrightarrow> map (\<lambda>idx. (xs ! fst idx, xs ! snd idx)) n_compare = combinations2 xs"
  apply (cases xs; simp)
  subgoal for a as apply (cases as; simp)
    subgoal for b bs apply (cases bs; simp)
      subgoal for c cs apply (cases cs; simp add: n_compare_eq) done done done done

lemma take4_nth:
  "4 \<le> length xs \<Longrightarrow> map (\<lambda>idx. (xs ! fst idx, xs ! snd idx)) n_compare = combinations2 (take 4 xs)"
  using combinations2_nth [of "take 4 xs"]
  by (simp add: n_compare_eq)


lemma n_compare_in_range: "idx \<in> set n_compare \<Longrightarrow> fst idx < 4 \<and> snd idx < 4"
  by (auto simp add: n_compare_eq)

lemma fill_zero: "fill (Val 0) c = (case c of NaN \<Rightarrow> Val 0 | Val x \<Rightarrow> Val x)"
  by (cases c) simp_all

lemma fill_not_NaN: "fill (Val 0) c \<noteq> NaN"
  by (cases c) simp_all

lemma no_null_fillna_row: "no_null (fillna_row (Val 0) r)"
  by (simp add: no_null_def fillna_row_def fill_not_NaN)





lemma join_truth_same:
  assumes "\<forall>p \<in> set preds.
             map t_rating (filter (\<lambda>t. t_user t = p_user p \<and> t_item t = p_item p) test) = [rating p]"
  shows "join_truth preds test = preds"
  using assms
proof (induction preds)
  case Nil
  then show ?case by (simp add: join_truth_def)
next
  case (Cons p ps)
  let ?m = "filter (\<lambda>t. t_user t = p_user p \<and> t_item t = p_item p) test"
  have "map t_rating ?m = [rating p]" using Cons.prems by simp
  then obtain t where t: "?m = [t]" and "t_rating t = rating p" by auto
  then have "map (\<lambda>t. p\<lparr>rating := t_rating t\<rparr>) ?m = [p]" by simp
  moreover have "join_truth ps test = ps" using Cons by simp
  ultimately show ?case by (simp add: join_truth_def)
qed

lemma apply_groups_Inr:
  "apply_groups f gs = Inr ys \<Longrightarrow> list_all2 (\<lambda>g y. f g = Inr y) gs ys"
  by (induction gs arbitrary: ys) (auto split: sum.splits)

lemma str_split_nonempty: "str_split sep s \<noteq> []"
  by (induction s) (auto split: list.splits)

lemma length_str_split_Cons: "length (str_split sep (c # cs)) \<ge> length (str_split sep cs)"
  by (auto split: list.splits)

lemma str_split_two:
  "sep \<in> set s \<Longrightarrow> 2 \<le> length (str_split sep s)"
proof (induction s)
  case Nil
  then show ?case by simp
next
  case (Cons c s)
  show ?case
  proof (cases "c = sep")
    case True
    have "1 \<le> length (str_split sep s)"
      using str_split_nonempty [of sep s] by (cases "str_split sep s") auto
    then show ?thesis using True by simp
  next
    case False
    then have "2 \<le> length (str_split sep s)" using Cons by simp
    then show ?thesis
      using length_str_split_Cons [of sep s c] by linarith
  qed
qed

lemma read_files_ok:
  assumes "CHR ''-'' \<in> set fld_name"
    and "\<forall>file \<in> set files. \<not> isl (read_csv file)"
  shows "read_files read_csv fld_name files acc = Inr (acc @ map (tag read_csv fld_name) files)"
  using assms(2)
proof (induction files arbitrary: acc)
  case Nil
  then show ?case by simp
next
  case (Cons fl files)
  have two: "2 \<le> length (str_split CHR ''-'' fld_name)"
    using assms(1) by (rule str_split_two)
  obtain rec where "read_csv fl = Inr rec"
    using Cons.prems by (cases "read_csv fl") auto
  then show ?case using Cons two by (auto simp add: getitem_def tag_def)
qed

lemma read_files_first_error:
  assumes "CHR ''-'' \<in> set fld_name"
    and "find (\<lambda>file. isl (read_csv file)) files = Some bad"
  shows "read_files read_csv fld_name files acc = Inl (projl (read_csv bad))"
  using assms(2)
proof (induction files arbitrary: acc)
  case Nil
  then show ?case by simp
next
  case (Cons fl files)
  have two: "2 \<le> length (str_split CHR ''-'' fld_name)"
    using assms(1) by (rule str_split_two)
  show ?case
  proof (cases "read_csv fl")
    case (Inl e)
    then show ?thesis using Cons.prems by simp
  next
    case (Inr rec)
    then have "find (\<lambda>file. isl (read_csv file)) files = Some bad"
      using Cons.prems by simp
    then show ?thesis using Cons.IH Inr two by (auto simp add: getitem_def)
  qed
qed

lemma find_None_all: "find P xs = None \<longleftrightarrow> (\<forall>x \<in> set xs. \<not> P x)"
  by (induction xs) auto

lemma find_append:
  "find P (xs @ ys) = (case find P xs of None \<Rightarrow> find P ys | Some x \<Rightarrow> Some x)"
  by (induction xs) auto

lemma read_dirs_outcome:
  assumes "\<forall>fld \<in> set dirs. CHR ''-'' \<in> set (name fld)"
  shows "read_dirs glob read_csv pat dirs acc =
           (case find (\<lambda>file. isl (read_csv file)) (concat (map (\<lambda>fld. glob fld pat) dirs)) of
              Some bad \<Rightarrow> Inl (projl (read_csv bad))
            | None \<Rightarrow>
                Inr (acc @ concat (map (\<lambda>fld. map (tag read_csv (name fld)) (glob fld pat)) dirs)))"
  using assms
proof (induction dirs arbitrary: acc)
  case Nil
  then show ?case by simp
next
  case (Cons fld dirs)
  have dash: "CHR ''-'' \<in> set (name fld)" using Cons.prems by simp
  show ?case
  proof (cases "find (\<lambda>file. isl (read_csv file)) (glob fld pat)")
    case None
    then have "\<forall>file \<in> set (glob fld pat). \<not> isl (read_csv file)"
      by (simp add: find_None_all)
    then have "read_files read_csv (name fld) (glob fld pat) acc =
                 Inr (acc @ map (tag read_csv (name fld)) (glob fld pat))"
      using dash by (intro read_files_ok)
    then show ?thesis using Cons None by (simp add: find_append split: option.splits)
  next
    case (Some bad)
    then have "read_files read_csv (name fld) (glob fld pat) acc = Inl (projl (read_csv bad))"
      using dash by (intro read_files_first_error)
    then show ?thesis using Some by (simp add: find_append)
  qed
qed

lemma load_outcome_generic:
  assumes "\<forall>fld \<in> set (dirs_of glob dataset_id output_root). CHR ''-'' \<in> set (name fld)"
  shows "(case read_dirs glob read_csv pat (dirs_of glob dataset_id output_root) [] of
            Inl e \<Rightarrow> Inl e | Inr fs \<Rightarrow> pd_concat fs) =
         (case find (\<lambda>file. isl (read_csv file)) (matched_files glob pat dataset_id output_root) of
            Some bad \<Rightarrow> Inl (projl (read_csv bad))
          | None \<Rightarrow> pd_concat (tagged_frames glob read_csv pat dataset_id output_root))"
  using read_dirs_outcome [OF assms, of glob read_csv pat "[]"]
  by (simp add: matched_files_def tagged_frames_def split: option.splits)

lemma length_tagged_frames:
  "length (tagged_frames glob read_csv pat dataset_id output_root) =
     length (matched_files glob pat dataset_id output_root)"
  by (simp add: tagged_frames_def matched_files_def length_concat comp_def)

lemma posthoc_loop_calls:
  assumes "\<forall>idx \<in> set idxs. fst idx < length vs \<and> snd idx < length vs
              \<and> fst idx < length names \<and> snd idx < length names"
    and "\<forall>idx \<in> set idxs.
           wb (vs ! fst idx) (vs ! snd idx) (names ! fst idx, names ! snd idx) = Inr (g idx)"
  shows "posthoc_loop wb names vs idxs out = (out @ map (\<lambda>idx. PairLine (g idx)) idxs, None)"
  using assms
  by (induction idxs arbitrary: out) (simp_all add: getitem_def)

lemma wilcox_bonf_returns:
  assumes "w d1 d2 = Inr (s, q)"
  shows "wilcox_bonf_precision w n_compare d1 d2 pr =
           Inr \<lparr>Pair_label = pr, Statistics = s, p_value = q,
                 Decision = (if cell_gt q (0.05 / 6)
                             then ''Metric is the same (fail to reject H0)''
                             else ''Metric is different (reject H0)'')\<rparr>"
    and "wilcox_bonf_ndcg w n_compare d1 d2 pr =
           Inr \<lparr>Pair_label = pr, Statistics = s, p_value = q,
                 Decision = (if cell_gt q (0.05 / 6)
                             then ''Metric is the same (fail to reject H0)''
                             else ''Metric is different (reject H0)'')\<rparr>"
    and "wilcox_bonf_recip_rank w n_compare d1 d2 pr =
           Inr \<lparr>Pair_label = pr, Statistics = s, p_value = q,
                 Decision = (if cell_gt q (0.05 / 6)
                             then ''Metric is the same (fail to reject H0)''
                             else ''Metric is different (reject H0)'')\<rparr>"
  using assms
  by (simp_all add: wilcox_bonf_precision_def wilcox_bonf_ndcg_def wilcox_bonf_recip_rank_def
        length_n_compare)

lemma alg_vals_of_nth:
  assumes "i < length (alg_names_of results)"
  shows "alg_vals_of metric results ! i =
           map metric (filter (\<lambda>r. algorithm r = alg_names_of results ! i) results)"
  using assms by (simp add: alg_vals_of_def alg_names_of_def groupby_algorithm_def)


lemma sorted_alg_names_of: "sorted (alg_names_of results)"
  by (simp add: alg_names_of_eq)

lemma run_section_output:
  assumes wb: "\<And>d1 d2 pr s q. w d1 d2 = Inr (s, q) \<Longrightarrow>
             wb w n_compare d1 d2 pr =
               Inr \<lparr>Pair_label = pr, Statistics = s, p_value = q,
                     Decision = (if cell_gt q (0.05 / 6)
                                 then ''Metric is the same (fail to reject H0)''
                                 else ''Metric is different (reject H0)'')\<rparr>"
    and k: "4 \<le> length (alg_names_of results)"
    and fr: "f (alg_vals_of metric results ! 0) (alg_vals_of metric results ! 1)
               (alg_vals_of metric results ! 2) (alg_vals_of metric results ! 3) = Inr (stat, p)"
    and wr: "\<forall>idx \<in> set n_compare.
               \<not> isl (w (alg_vals_of metric results ! fst idx) (alg_vals_of metric results ! snd idx))"
  shows "run_section wb f w metric results =
           (FriedmanLine stat p #
            map (\<lambda>idx. PairLine
                   \<lparr>Pair_label = (alg_names_of results ! fst idx, alg_names_of results ! snd idx),
                    Statistics = fst (projr (w (alg_vals_of metric results ! fst idx)
                                               (alg_vals_of metric results ! snd idx))),
                    p_value = snd (projr (w (alg_vals_of metric results ! fst idx)
                                            (alg_vals_of metric results ! snd idx))),
                    Decision =
                      (if cell_gt (snd (projr (w (alg_vals_of metric results ! fst idx)
                                                  (alg_vals_of metric results ! snd idx))))
                            (0.05 / 6)
                       then ''Metric is the same (fail to reject H0)''
                       else ''Metric is different (reject H0)'')\<rparr>)
              n_compare, None)"
proof -
  let ?names = "alg_names_of results" and ?vs = "alg_vals_of metric results"
  let ?g = "\<lambda>idx. \<lparr>Pair_label = (?names ! fst idx, ?names ! snd idx),
                    Statistics = fst (projr (w (?vs ! fst idx) (?vs ! snd idx))),
                    p_value = snd (projr (w (?vs ! fst idx) (?vs ! snd idx))),
                    Decision =
                      (if cell_gt (snd (projr (w (?vs ! fst idx) (?vs ! snd idx)))) (0.05 / 6)
                       then ''Metric is the same (fail to reject H0)''
                       else ''Metric is different (reject H0)'')\<rparr>"
  have cell: "friedman_cell f metric results = Inr (?names, ?vs, stat, p)"
    using friedman_cell_four [OF k, of f metric] fr by simp
  have rng: "\<forall>idx \<in> set n_compare. fst idx < length ?vs \<and> snd idx < length ?vs
               \<and> fst idx < length ?names \<and> snd idx < length ?names"
    using k n_compare_in_range length_alg_vals_of [of metric results] by fastforce
  have calls: "\<forall>idx \<in> set n_compare.
           wb w n_compare (?vs ! fst idx) (?vs ! snd idx) (?names ! fst idx, ?names ! snd idx)
             = Inr (?g idx)"
  proof
    fix idx assume "idx \<in> set n_compare"
    then have "\<not> isl (w (?vs ! fst idx) (?vs ! snd idx))" using wr by blast
    then have "w (?vs ! fst idx) (?vs ! snd idx) =
                 Inr (fst (projr (w (?vs ! fst idx) (?vs ! snd idx))),
                      snd (projr (w (?vs ! fst idx) (?vs ! snd idx))))"
      by (cases "w (?vs ! fst idx) (?vs ! snd idx)") auto
    then show "wb w n_compare (?vs ! fst idx) (?vs ! snd idx)
                 (?names ! fst idx, ?names ! snd idx) = Inr (?g idx)"
      by (rule wb)
  qed
  show ?thesis
    using posthoc_loop_calls [OF rng calls, of "[FriedmanLine stat p]"] cell
    by (simp add: run_section_def)
qed



section \<open>The three copies of the post-hoc procedure\<close>

text \<open>
  Claim C10.  The sections for precision, ndcg and recip_rank each define
  \<^verbatim>\<open>wilcox_bonf\<close> anew; the three definitions are extensionally equal: on the same test
  function, the same \<^verbatim>\<open>n_compare\<close>, the same two score vectors and the same pair label
  they return the same record (Pair, Statistics, p_value, Decision) or raise the same
  exception.
\<close>

theorem wilcox_bonf_sections_equal:
  "wilcox_bonf_precision w nc d1 d2 pr = wilcox_bonf_ndcg w nc d1 d2 pr
   \<and> wilcox_bonf_ndcg w nc d1 d2 pr = wilcox_bonf_recip_rank w nc d1 d2 pr"
  by (simp add: wilcox_bonf_precision_def wilcox_bonf_ndcg_def wilcox_bonf_recip_rank_def)

section \<open>The Bonferroni decision\<close>

text \<open>
  Claim C3, as the code has it.  With \<open>m = length n_compare = 6\<close> comparisons the
  threshold is \<open>0.05 / m\<close>, and the decision is "different" if and only if the raw
  p-value is not greater than the threshold: less than it, equal to it, or \<^verbatim>\<open>NaN\<close>.
  Otherwise it is "same".  This holds for each of the three copies.
\<close>

theorem wilcox_bonf_decision:
  assumes "wilcoxon data1 data2 = Inr (stat, p)"
  shows "wilcox_bonf_precision wilcoxon n_compare data1 data2 alg_pair =
           Inr \<lparr>Pair_label = alg_pair, Statistics = stat, p_value = p,
                 Decision =
                   (if (case p of NaN \<Rightarrow> True | Val x \<Rightarrow> x \<le> 0.05 / real (length n_compare))
                    then ''Metric is different (reject H0)''
                    else ''Metric is the same (fail to reject H0)'')\<rparr>
         \<and> wilcox_bonf_ndcg wilcoxon n_compare data1 data2 alg_pair =
             wilcox_bonf_precision wilcoxon n_compare data1 data2 alg_pair
         \<and> wilcox_bonf_recip_rank wilcoxon n_compare data1 data2 alg_pair =
             wilcox_bonf_precision wilcoxon n_compare data1 data2 alg_pair
         \<and> length n_compare = 6"
  using assms
  by (simp add: wilcox_bonf_precision_def wilcox_bonf_ndcg_def wilcox_bonf_recip_rank_def
        not_cell_gt [symmetric] length_n_compare)

theorem wilcox_bonf_decision_witness:
  "wilcoxon_const (Val 3, Val 0.001) [Val 1] [Val 0] = Inr (Val 3, Val 0.001)
   \<and> wilcox_bonf_precision (wilcoxon_const (Val 3, Val 0.001)) n_compare [Val 1] [Val 0]
         (''A'', ''B'') =
       Inr \<lparr>Pair_label = (''A'', ''B''), Statistics = Val 3, p_value = Val 0.001,
             Decision = ''Metric is different (reject H0)''\<rparr>"
proof -
  have h: "wilcoxon_const (Val 3, Val 0.001) [Val 1] [Val 0] = Inr (Val 3, Val 0.001)"
    by (simp add: wilcoxon_const_def)
  show ?thesis
    using h wilcox_bonf_decision [of "wilcoxon_const (Val 3, Val 0.001)" "[Val 1]" "[Val 0]"
        "Val 3" "Val 0.001" "(''A'', ''B'')"]
    by (simp add: length_n_compare)
qed

text \<open>
  The claim as the specification words it ("different" if and only if the p-value is
  strictly less than the threshold) fails at a p-value equal to the threshold: the code
  decides "different", and the p-value is not less than \<open>0.05 / 6\<close>.
\<close>

theorem wilcox_bonf_strict_counterexample:
  "wilcox_bonf_precision (wilcoxon_const (Val 1, Val (0.05 / 6))) n_compare [] []
       (''A'', ''B'') =
     Inr \<lparr>Pair_label = (''A'', ''B''), Statistics = Val 1, p_value = Val (0.05 / 6),
           Decision = ''Metric is different (reject H0)''\<rparr>
   \<and> \<not> cell_lt (Val (0.05 / 6)) (0.05 / real (length n_compare))"
  by (simp add: wilcoxon_const_def wilcox_bonf_precision_def length_n_compare)

section \<open>The post-hoc tests and the Friedman p-value\<close>

text \<open>
  Claim C1 says that the pairwise tests run only when the Friedman p-value is below 0.05.
  The notebook's own text says the same, but the post-hoc cell has no such test.  With four
  algorithms and a Friedman p-value of 0.5 the precision section still runs the six
  pairwise tests and prints their six decisions.
\<close>

theorem posthoc_runs_when_not_significant:
  "\<not> cell_lt (Val 0.5) 0.05
   \<and> precision_section (friedman_const (Val 1, Val 0.5)) (wilcoxon_const (Val 0, Val 0.5))
         results4 =
       ([FriedmanLine (Val 1) (Val 0.5),
         same_line (''A'', ''B''), same_line (''A'', ''C''), same_line (''A'', ''D''),
         same_line (''B'', ''C''), same_line (''B'', ''D''), same_line (''C'', ''D'')], None)"
  by (simp add: precision_section_def run_section_def friedman_cell_def results4_def
        example_row_def groupby_algorithm_def alg_names_of_def alg_vals_of_def getitem_def
        friedman_const_def wilcoxon_const_def n_compare_eq wilcox_bonf_precision_def
        same_line_def)

section \<open>How many algorithms the Friedman cell takes\<close>

text \<open>
  Claim C7, as the code has it.  The Friedman cell passes exactly the first four groups
  (in sorted order of the algorithm label) to \<^verbatim>\<open>friedmanchisquare\<close>.  With \<open>k\<close> the
  number of algorithms in the metric table: if \<open>k < 4\<close> the cell raises
  \<^verbatim>\<open>IndexError\<close> before the test is called; if \<open>k \<ge> 4\<close> the test is called on the
  groups 0 to 3 and the cell returns or raises what the test returns or raises.
\<close>

theorem friedman_needs_four:
  "length (alg_names_of results) = card (algorithm ` set results)
   \<and> (length (alg_names_of results) < 4 \<longrightarrow>
        friedman_cell f metric results = Inl IndexError)
   \<and> (4 \<le> length (alg_names_of results) \<longrightarrow>
        friedman_cell f metric results =
          (case f (alg_vals_of metric results ! 0) (alg_vals_of metric results ! 1)
                  (alg_vals_of metric results ! 2) (alg_vals_of metric results ! 3) of
             Inl e \<Rightarrow> Inl e
           | Inr (stat, p) \<Rightarrow>
               Inr (alg_names_of results, alg_vals_of metric results, stat, p)))"
  using friedman_cell_few [of results f metric] friedman_cell_four [of results f metric]
    length_alg_names_of [of results]
  by blast

theorem friedman_needs_four_witness:
  "length (alg_names_of results3) < 4
   \<and> friedman_cell (friedman_const (Val 1, Val 0.01)) precision results3 = Inl IndexError
   \<and> 4 \<le> length (alg_names_of results5)
   \<and> friedman_cell (friedman_const (Val 1, Val 0.01)) precision results5 =
       Inr ([''A'', ''B'', ''C'', ''D'', ''E''],
            [[Val 0.25], [Val 0.5], [Val 1], [Val 0], [Val 0.75]], Val 1, Val 0.01)"
  using friedman_needs_four [of results3 "friedman_const (Val 1, Val 0.01)" precision]
    friedman_needs_four [of results5 "friedman_const (Val 1, Val 0.01)" precision]
  by (simp add: alg_names_of_def alg_vals_of_def groupby_algorithm_def results3_def
        results5_def example_row_def friedman_const_def)

text \<open>
  The claim as the specification words it (any \<open>k \<ge> 3\<close> is accepted) fails at
  \<open>k = 3\<close>: the cell raises \<^verbatim>\<open>IndexError\<close>.
\<close>

theorem friedman_three_counterexample:
  "length (alg_names_of results3) = 3
   \<and> friedman_cell (friedman_const (Val 1, Val 0.5)) ndcg results3 = Inl IndexError"
  by (simp add: friedman_cell_def alg_names_of_def alg_vals_of_def groupby_algorithm_def
        results3_def example_row_def getitem_def)

section \<open>Fewer than two algorithms\<close>

text \<open>
  Claim C8, as the code has it.  With fewer than two algorithms in the metric table each
  section performs no comparison and prints nothing, and it ends with an
  \<^verbatim>\<open>IndexError\<close>: the run does not complete.
\<close>

theorem sections_fail_below_two:
  assumes "length (alg_names_of results) < 2"
  shows "precision_section f w results = ([], Some IndexError)
         \<and> ndcg_section f w results = ([], Some IndexError)
         \<and> recip_rank_section f w results = ([], Some IndexError)"
proof -
  have "length (alg_names_of results) < 4" using assms by simp
  then have "friedman_cell f metric results = Inl IndexError" for metric
    by (rule friedman_cell_few)
  then show ?thesis
    by (simp add: precision_section_def ndcg_section_def recip_rank_section_def run_section_def)
qed

theorem sections_fail_below_two_witness:
  "length (alg_names_of []) < 2
   \<and> precision_section (friedman_const (Val 1, Val 0.5)) (wilcoxon_const (Val 0, Val 0.5)) [] =
       ([], Some IndexError)
   \<and> ndcg_section (friedman_const (Val 1, Val 0.5)) (wilcoxon_const (Val 0, Val 0.5)) [] =
       ([], Some IndexError)
   \<and> recip_rank_section (friedman_const (Val 1, Val 0.5)) (wilcoxon_const (Val 0, Val 0.5)) [] =
       ([], Some IndexError)"
proof -
  have h: "length (alg_names_of []) < 2"
    by (simp add: alg_names_of_def groupby_algorithm_def)
  show ?thesis
    using h sections_fail_below_two [OF h, of "friedman_const (Val 1, Val 0.5)"
        "wilcoxon_const (Val 0, Val 0.5)"]
    by simp
qed

text \<open>
  The claim as the specification words it (the stage completes as a no-op) fails with one
  algorithm: the precision section raises \<^verbatim>\<open>IndexError\<close>.
\<close>

theorem one_algorithm_counterexample:
  "length (alg_names_of results1) = 1
   \<and> precision_section (friedman_const (Val 1, Val 0.5)) (wilcoxon_const (Val 0, Val 0.5))
         results1 = ([], Some IndexError)"
  by (simp add: precision_section_def run_section_def friedman_cell_def alg_names_of_def
        alg_vals_of_def groupby_algorithm_def results1_def example_row_def getitem_def)

section \<open>What the fill does to the bookkeeping columns\<close>

text \<open>
  Claim C9, as the code has it.  The fill keeps the rows and the index of the table,
  replaces every missing value in every column by 0, \<^verbatim>\<open>nrecs\<close> and \<^verbatim>\<open>ntruth\<close>
  included, and leaves every value that is present as it is.  So the final table has no
  missing value in any column, and the \<^verbatim>\<open>ntruth\<close> of a row is 0 after the fill only
  where \<^verbatim>\<open>rla.compute\<close> left it missing or set it to 0.
\<close>

theorem fillna_every_column:
  "length (fillna (Val 0) t) = length t
   \<and> (\<forall>r \<in> set (fillna (Val 0) t). no_null r)
   \<and> (\<forall>i < length t.
        dataset (fillna (Val 0) t ! i) = dataset (t ! i)
        \<and> algorithm (fillna (Val 0) t ! i) = algorithm (t ! i)
        \<and> user (fillna (Val 0) t ! i) = user (t ! i)
        \<and> nrecs (fillna (Val 0) t ! i) = (case nrecs (t ! i) of NaN \<Rightarrow> Val 0 | Val x \<Rightarrow> Val x)
        \<and> precision (fillna (Val 0) t ! i) =
            (case precision (t ! i) of NaN \<Rightarrow> Val 0 | Val x \<Rightarrow> Val x)
        \<and> recip_rank (fillna (Val 0) t ! i) =
            (case recip_rank (t ! i) of NaN \<Rightarrow> Val 0 | Val x \<Rightarrow> Val x)
        \<and> ndcg (fillna (Val 0) t ! i) = (case ndcg (t ! i) of NaN \<Rightarrow> Val 0 | Val x \<Rightarrow> Val x)
        \<and> ntruth (fillna (Val 0) t ! i) =
            (case ntruth (t ! i) of NaN \<Rightarrow> Val 0 | Val x \<Rightarrow> Val x))"
proof -
  have "\<forall>r \<in> set (fillna (Val 0) t). no_null r"
    by (auto simp add: fillna_def no_null_fillna_row)
  moreover have "fillna (Val 0) t ! i = fillna_row (Val 0) (t ! i)" if "i < length t" for i
    using that by (simp add: fillna_def)
  ultimately show ?thesis
    by (simp add: fillna_row_def fill_zero) (simp add: fillna_def)
qed

theorem fillna_every_column_witness:
  "fillna (Val 0) example_computed ! 1 =
     \<lparr>dataset = ''ml100k'', algorithm = ''A'', user = 2, nrecs = Val 0,
      precision = Val 0, recip_rank = Val 0, ndcg = Val 0, ntruth = Val 3\<rparr>
   \<and> no_null (fillna (Val 0) example_computed ! 0)
   \<and> no_null (fillna (Val 0) example_computed ! 1)"
  using fillna_every_column [of example_computed]
  by (simp add: example_computed_def missing_row_def fillna_def fillna_row_def no_null_def)

text \<open>
  The claim as stated (a pair without recommendations reports a ground-truth count of 0,
  however many ground-truth items the user has) fails on the table that
  \<^verbatim>\<open>include_missing=True\<close> yields: user 2 has three ground-truth items and no
  recommendation from \<open>A\<close>, and the final row of (A, 2) has \<^verbatim>\<open>ntruth\<close> 3.
\<close>

theorem ntruth_kept_counterexample:
  "missing_pair example_recs example_test ''A'' 2
   \<and> length (filter (\<lambda>x. t_user x = 2) example_test) = 3
   \<and> compute_metrics (compute_const example_computed) example_recs example_test =
       Inr [\<lparr>dataset = ''ml100k'', algorithm = ''A'', user = 1, nrecs = Val 1,
             precision = Val 1, recip_rank = Val 1, ndcg = Val 1, ntruth = Val 1\<rparr>,
            \<lparr>dataset = ''ml100k'', algorithm = ''A'', user = 2, nrecs = Val 0,
             precision = Val 0, recip_rank = Val 0, ndcg = Val 0, ntruth = Val 3\<rparr>]"
  by (simp add: missing_pair_def example_recs_def example_test_def compute_metrics_def
        compute_const_def example_computed_def missing_row_def fillna_def fillna_row_def)

section \<open>Where the RMSE takes the rating from\<close>

text \<open>
  Claim C5, as the code has it.  The per-user RMSE is computed from the prediction table
  alone: there is one value per (algorithm, user) group of the table, in sorted order of
  the pairs, and it is the RMSE of the group's \<^verbatim>\<open>prediction\<close> column against the
  \<^verbatim>\<open>rating\<close> column of the same rows.  The ground-truth table is not read.  The values
  are those of a join against the ground truth whenever the ground truth has, for the user
  and item of every prediction row, exactly one row, with the rating the prediction row
  carries.
\<close>

theorem user_rmse_own_rating:
  "(user_rmse rmse preds = Inr out \<longrightarrow>
      map (\<lambda>x. (fst x, fst (snd x))) out =
        sort (remdups (map (\<lambda>r. (p_algorithm r, p_user r)) preds))
      \<and> (\<forall>x \<in> set out.
            rmse (map prediction
                    (filter (\<lambda>r. (p_algorithm r, p_user r) = (fst x, fst (snd x))) preds))
                 (map rating
                    (filter (\<lambda>r. (p_algorithm r, p_user r) = (fst x, fst (snd x))) preds))
              = Inr (snd (snd x))))
   \<and> ((\<forall>p \<in> set preds.
          map t_rating (filter (\<lambda>t. t_user t = p_user p \<and> t_item t = p_item p) test)
            = [rating p]) \<longrightarrow>
        user_rmse_joined rmse preds test = user_rmse rmse preds)"
proof (intro conjI impI)
  let ?f = "\<lambda>g. case rmse (map prediction (snd g)) (map rating (snd g)) of
               Inl e \<Rightarrow> Inl e
             | Inr v \<Rightarrow> Inr (fst (fst g), snd (fst g), v)"
  let ?gs = "groupby_algorithm_user preds"
  assume "user_rmse rmse preds = Inr out"
  then have all2: "list_all2 (\<lambda>g y. ?f g = Inr y) ?gs out"
    unfolding user_rmse_def by (rule apply_groups_Inr)
  have step: "\<And>g y. ?f g = Inr y \<Longrightarrow>
        (fst y, fst (snd y)) = fst g
        \<and> rmse (map prediction (snd g)) (map rating (snd g)) = Inr (snd (snd y))"
    by (auto split: sum.splits)
  have keys: "list_all2 (\<lambda>g y. (fst y, fst (snd y)) = fst g) ?gs out"
  proof (rule list_all2_mono [OF all2])
    fix g y assume "?f g = Inr y"
    from step [OF this] show "(fst y, fst (snd y)) = fst g" by simp
  qed
  then have "map (\<lambda>x. (fst x, fst (snd x))) out = map fst ?gs"
    by (induction rule: list_all2_induct) auto
  then show "map (\<lambda>x. (fst x, fst (snd x))) out =
        sort (remdups (map (\<lambda>r. (p_algorithm r, p_user r)) preds))"
    by (simp add: groupby_algorithm_user_def comp_def)
  show "\<forall>x \<in> set out.
            rmse (map prediction
                    (filter (\<lambda>r. (p_algorithm r, p_user r) = (fst x, fst (snd x))) preds))
                 (map rating
                    (filter (\<lambda>r. (p_algorithm r, p_user r) = (fst x, fst (snd x))) preds))
              = Inr (snd (snd x))"
  proof
    fix x assume "x \<in> set out"
    then obtain i where i: "i < length out" "out ! i = x"
      by (auto simp add: in_set_conv_nth)
    have len: "length ?gs = length out"
      using all2 by (rule list_all2_lengthD)
    define g where "g = ?gs ! i"
    have g: "g \<in> set ?gs"
      using i len by (simp add: g_def)
    have fg: "?f g = Inr x"
      unfolding g_def using list_all2_nthD [OF all2, of i] i len by simp
    have "snd g = filter (\<lambda>r. (p_algorithm r, p_user r) = fst g) preds"
      using g by (auto simp add: groupby_algorithm_user_def)
    then show "rmse (map prediction
                    (filter (\<lambda>r. (p_algorithm r, p_user r) = (fst x, fst (snd x))) preds))
                 (map rating
                    (filter (\<lambda>r. (p_algorithm r, p_user r) = (fst x, fst (snd x))) preds))
              = Inr (snd (snd x))"
      using step [OF fg] by simp
  qed
next
  assume "\<forall>p \<in> set preds.
          map t_rating (filter (\<lambda>t. t_user t = p_user p \<and> t_item t = p_item p) test)
            = [rating p]"
  then show "user_rmse_joined rmse preds test = user_rmse rmse preds"
    by (simp add: user_rmse_joined_def join_truth_same)
qed

theorem user_rmse_own_rating_witness:
  "user_rmse rmse_std example_preds = Inr [(''A'', 1, Val 2)]
   \<and> user_rmse_joined rmse_std example_preds truth_same = Inr [(''A'', 1, Val 2)]"
proof -
  have v: "user_rmse rmse_std example_preds = Inr [(''A'', 1, Val 2)]"
    by (simp add: user_rmse_def groupby_algorithm_user_def example_preds_def rmse_std_def)
  have h: "\<forall>p \<in> set example_preds.
          map t_rating (filter (\<lambda>t. t_user t = p_user p \<and> t_item t = p_item p) truth_same)
            = [rating p]"
    by (simp add: example_preds_def truth_same_def)
  show ?thesis
    using v h user_rmse_own_rating [of rmse_std example_preds "[(''A'', 1, Val 2)]" truth_same]
    by simp
qed

text \<open>
  The claim as the specification words it (the predicted rating compared with the rating
  of the ground-truth table) fails where the two ratings differ: the prediction file has
  the rating 5 and the ground truth the rating 4 for user 1 and item 10; the code yields the
  RMSE 2, the join against the ground truth 1.
\<close>

theorem user_rmse_join_counterexample:
  "user_rmse rmse_std example_preds = Inr [(''A'', 1, Val 2)]
   \<and> user_rmse_joined rmse_std example_preds truth_other = Inr [(''A'', 1, Val 1)]"
  by (simp add: user_rmse_joined_def join_truth_def user_rmse_def groupby_algorithm_user_def
        example_preds_def truth_other_def rmse_std_def)

section \<open>The pairs of the post-hoc step\<close>

text \<open>
  Claim C4, as the code has it.  When the omnibus test is significant and at least four
  algorithms are in the metric table, the post-hoc step runs over the six index pairs
  \<open>(i, j)\<close>, \<open>i < j < 4\<close>, in lexicographic order.  For each it calls the Wilcoxon test
  on the score vectors of the \<open>i\<close>-th and the \<open>j\<close>-th algorithm, in sorted order of the
  labels, and when these six calls return it outputs one result per index pair, in that
  order, with the labels of the two algorithms, the statistic and the p-value of the call
  and the decision on that p-value.  The score vector of an algorithm is the metric column
  of its rows, in table order.  With exactly four algorithms (\<open>k = 4\<close>) the pairs are all
  \<open>C(k, 2)\<close> unordered pairs of the algorithms in the table, every algorithm is in one of
  them, and no pair is repeated in either order; with more than four they are the pairs of
  the first four.  This holds for each of the three sections with its metric.
\<close>

theorem posthoc_tests:
  assumes sm: "(sec, metric) = (precision_section, precision)
               \<or> (sec, metric) = (ndcg_section, ndcg)
               \<or> (sec, metric) = (recip_rank_section, recip_rank)"
    and k: "4 \<le> length (alg_names_of results)"
    and fr: "f (alg_vals_of metric results ! 0) (alg_vals_of metric results ! 1)
               (alg_vals_of metric results ! 2) (alg_vals_of metric results ! 3) = Inr (stat, p)"
    and sig: "cell_lt p 0.05"
    and wr: "\<forall>idx \<in> set n_compare.
               \<not> isl (w (alg_vals_of metric results ! fst idx) (alg_vals_of metric results ! snd idx))"
  shows "sec f w results =
           (FriedmanLine stat p #
            map (\<lambda>idx. PairLine
                   \<lparr>Pair_label = (alg_names_of results ! fst idx, alg_names_of results ! snd idx),
                    Statistics = fst (projr (w (alg_vals_of metric results ! fst idx)
                                               (alg_vals_of metric results ! snd idx))),
                    p_value = snd (projr (w (alg_vals_of metric results ! fst idx)
                                            (alg_vals_of metric results ! snd idx))),
                    Decision =
                      (if cell_gt (snd (projr (w (alg_vals_of metric results ! fst idx)
                                                  (alg_vals_of metric results ! snd idx))))
                            (0.05 / 6)
                       then ''Metric is the same (fail to reject H0)''
                       else ''Metric is different (reject H0)'')\<rparr>)
              n_compare, None)
         \<and> n_compare = [(0, 1), (0, 2), (0, 3), (1, 2), (1, 3), (2, 3)]
         \<and> sorted (alg_names_of results) \<and> distinct (alg_names_of results)
         \<and> set (alg_names_of results) = algorithm ` set results
         \<and> (\<forall>i < length (alg_names_of results).
              alg_vals_of metric results ! i =
                map metric (filter (\<lambda>r. algorithm r = alg_names_of results ! i) results))
         \<and> pair_labels (fst (sec f w results)) = combinations2 (take 4 (alg_names_of results))
         \<and> (length (alg_names_of results) = 4 \<longrightarrow>
              pair_labels (fst (sec f w results)) = combinations2 (alg_names_of results)
              \<and> length (pair_labels (fst (sec f w results))) =
                  length (alg_names_of results) choose 2
              \<and> distinct (pair_labels (fst (sec f w results)))
              \<and> (\<forall>a \<in> set (alg_names_of results).
                    \<exists>pr \<in> set (pair_labels (fst (sec f w results))). a = fst pr \<or> a = snd pr)
              \<and> (\<forall>pr \<in> set (pair_labels (fst (sec f w results))).
                    (snd pr, fst pr) \<notin> set (pair_labels (fst (sec f w results)))))"
proof -
  let ?names = "alg_names_of results" and ?vs = "alg_vals_of metric results"
  let ?labels = "pair_labels (fst (sec f w results))"
  let ?g = "\<lambda>idx. \<lparr>Pair_label = (?names ! fst idx, ?names ! snd idx),
                    Statistics = fst (projr (w (?vs ! fst idx) (?vs ! snd idx))),
                    p_value = snd (projr (w (?vs ! fst idx) (?vs ! snd idx))),
                    Decision =
                      (if cell_gt (snd (projr (w (?vs ! fst idx) (?vs ! snd idx)))) (0.05 / 6)
                       then ''Metric is the same (fail to reject H0)''
                       else ''Metric is different (reject H0)'')\<rparr>"
  have out: "sec f w results = (FriedmanLine stat p # map (\<lambda>idx. PairLine (?g idx)) n_compare, None)"
  proof -
    consider "sec = precision_section \<and> metric = precision"
      | "sec = ndcg_section \<and> metric = ndcg"
      | "sec = recip_rank_section \<and> metric = recip_rank"
      using sm by auto
    then show ?thesis
    proof cases
      case 1
      then show ?thesis
        using run_section_output [of w wilcox_bonf_precision results f precision stat p]
          wilcox_bonf_returns(1) [of w] k fr wr
        by (simp add: precision_section_def)
    next
      case 2
      then show ?thesis
        using run_section_output [of w wilcox_bonf_ndcg results f ndcg stat p]
          wilcox_bonf_returns(2) [of w] k fr wr
        by (simp add: ndcg_section_def)
    next
      case 3
      then show ?thesis
        using run_section_output [of w wilcox_bonf_recip_rank results f recip_rank stat p]
          wilcox_bonf_returns(3) [of w] k fr wr
        by (simp add: recip_rank_section_def)
    qed
  qed
  have lab: "?labels = map (\<lambda>idx. (?names ! fst idx, ?names ! snd idx)) n_compare"
    by (simp add: out pair_labels_map_PairLine)
  have t: "?labels = combinations2 (take 4 ?names)"
    using lab take4_nth [OF k] by simp
  have groups: "\<forall>i < length ?names.
              ?vs ! i = map metric (filter (\<lambda>r. algorithm r = ?names ! i) results)"
    by (simp add: alg_vals_of_nth)
  have four: "?labels = combinations2 ?names
      \<and> length ?labels = length ?names choose 2
      \<and> distinct ?labels
      \<and> (\<forall>a \<in> set ?names. \<exists>pr \<in> set ?labels. a = fst pr \<or> a = snd pr)
      \<and> (\<forall>pr \<in> set ?labels. (snd pr, fst pr) \<notin> set ?labels)"
    if k4: "length ?names = 4"
  proof -
    have c: "?labels = combinations2 ?names" using t k4 by simp
    have d: "distinct ?names" by (rule distinct_alg_names_of)
    have "\<forall>a \<in> set ?names. \<exists>pr \<in> set (combinations2 ?names). a = fst pr \<or> a = snd pr"
      using combinations2_covers [of ?names] k4 by simp
    moreover have "\<forall>pr \<in> set (combinations2 ?names). (snd pr, fst pr) \<notin> set (combinations2 ?names)"
      using combinations2_not_swapped [OF d] by force
    ultimately show ?thesis
      using c d by (simp add: length_combinations2 distinct_combinations2)
  qed
  show ?thesis
    by (intro conjI impI)
       (use out t groups four n_compare_eq sorted_alg_names_of [of results]
          distinct_alg_names_of [of results] set_alg_names_of [of results] in blast)+
qed

theorem posthoc_tests_witness:
  "4 \<le> length (alg_names_of results4)
   \<and> cell_lt (Val 0.01) 0.05
   \<and> precision_section (friedman_const (Val 1, Val 0.01)) wilcoxon_probe results4 =
       ([FriedmanLine (Val 1) (Val 0.01),
         PairLine \<lparr>Pair_label = (''A'', ''B''), Statistics = Val 0.25, p_value = Val 0.5,
                   Decision = ''Metric is the same (fail to reject H0)''\<rparr>,
         PairLine \<lparr>Pair_label = (''A'', ''C''), Statistics = Val 0.25, p_value = Val 1,
                   Decision = ''Metric is the same (fail to reject H0)''\<rparr>,
         PairLine \<lparr>Pair_label = (''A'', ''D''), Statistics = Val 0.25, p_value = Val 0,
                   Decision = ''Metric is different (reject H0)''\<rparr>,
         PairLine \<lparr>Pair_label = (''B'', ''C''), Statistics = Val 0.5, p_value = Val 1,
                   Decision = ''Metric is the same (fail to reject H0)''\<rparr>,
         PairLine \<lparr>Pair_label = (''B'', ''D''), Statistics = Val 0.5, p_value = Val 0,
                   Decision = ''Metric is different (reject H0)''\<rparr>,
         PairLine \<lparr>Pair_label = (''C'', ''D''), Statistics = Val 1, p_value = Val 0,
                   Decision = ''Metric is different (reject H0)''\<rparr>], None)"
proof -
  have n: "alg_names_of results4 = [''A'', ''B'', ''C'', ''D'']"
    by (simp add: alg_names_of_def groupby_algorithm_def results4_def example_row_def)
  have v: "alg_vals_of precision results4 = [[Val 0.25], [Val 0.5], [Val 1], [Val 0]]"
    by (simp add: alg_vals_of_def groupby_algorithm_def results4_def example_row_def)
  have sm: "(precision_section, precision) = (precision_section, precision)
            \<or> (precision_section, precision) = (ndcg_section, ndcg)
            \<or> (precision_section, precision) = (recip_rank_section, recip_rank)"
    by simp
  have k: "4 \<le> length (alg_names_of results4)"
    by (simp add: n)
  have fr: "friedman_const (Val 1, Val 0.01) (alg_vals_of precision results4 ! 0)
              (alg_vals_of precision results4 ! 1) (alg_vals_of precision results4 ! 2)
              (alg_vals_of precision results4 ! 3) = Inr (Val 1, Val 0.01)"
    by (simp add: friedman_const_def)
  have sig: "cell_lt (Val 0.01) 0.05"
    by simp
  have wr: "\<forall>idx \<in> set n_compare.
              \<not> isl (wilcoxon_probe (alg_vals_of precision results4 ! fst idx)
                                      (alg_vals_of precision results4 ! snd idx))"
    by (simp add: v n_compare_eq)
  show ?thesis
    using sm k fr sig wr
      posthoc_tests [where sec = precision_section and metric = precision
        and results = results4 and f = "friedman_const (Val 1, Val 0.01)"
        and stat = "Val 1" and p = "Val 0.01" and w = wilcoxon_probe]
    by (simp add: n v n_compare_eq)
qed

text \<open>
  The claim as the specification words it (all \<open>C(k, 2)\<close> pairs of the \<open>k\<close>
  algorithms present) fails at \<open>k = 5\<close> with a significant Friedman test: six pairs are
  output, not ten, and the fifth algorithm is in none of them.
\<close>

theorem five_algorithms_counterexample:
  "alg_names_of results5 = [''A'', ''B'', ''C'', ''D'', ''E'']
   \<and> cell_lt (Val 0.01) 0.05
   \<and> length (combinations2 (alg_names_of results5)) = 10
   \<and> precision_section (friedman_const (Val 1, Val 0.01)) (wilcoxon_const (Val 0, Val 0.5))
         results5 =
       ([FriedmanLine (Val 1) (Val 0.01),
         same_line (''A'', ''B''), same_line (''A'', ''C''), same_line (''A'', ''D''),
         same_line (''B'', ''C''), same_line (''B'', ''D''), same_line (''C'', ''D'')], None)"
  by (simp add: precision_section_def run_section_def friedman_cell_def results5_def
        example_row_def groupby_algorithm_def alg_names_of_def alg_vals_of_def getitem_def
        friedman_const_def wilcoxon_const_def n_compare_eq wilcox_bonf_precision_def
        same_line_def)

section \<open>Pairs without recommendations\<close>




section \<open>When loading fails\<close>

text \<open>
  Claim C6, as the code has it.  The matched directories are those that
  \<^verbatim>\<open>Path.glob\<close> returns for the pattern of the dataset; each has a \<^verbatim>\<open>-\<close> in its
  name, as the pattern has.  Loading the recommendations (and likewise the predictions)
  fails exactly when no file in any matched directory matches the pattern, or
  \<^verbatim>\<open>pd.read_csv\<close> raises on one of the matching files.  In the first case, which
  includes a dataset without matching output directories, the failure is the
  \<^verbatim>\<open>ValueError\<close> of \<^verbatim>\<open>pd.concat\<close> on an empty list.  In the second it is the exception
  that \<^verbatim>\<open>pd.read_csv\<close> raised on the first matching file, in reading order, that it could
  not read: no such file is skipped.  Otherwise the load returns the concatenation of the
  tagged tables of all matching files.  A matched directory without matching files does
  not make the load fail when another directory has one, and the columns of a file that was
  read are not checked.
\<close>

theorem load_outcome:
  assumes "\<forall>fld \<in> set (dirs_of glob dataset_id output_root). CHR ''-'' \<in> set (name fld)"
  shows "load_recs glob read_csv dataset_id output_root =
           (case find (\<lambda>file. isl (read_csv file))
                   (matched_files glob ''recs-*'' dataset_id output_root) of
              Some bad \<Rightarrow> Inl (projl (read_csv bad))
            | None \<Rightarrow>
                if matched_files glob ''recs-*'' dataset_id output_root = [] then Inl ValueError
                else pd_concat (tagged_frames glob read_csv ''recs-*'' dataset_id output_root))
         \<and> load_preds glob read_csv dataset_id output_root =
           (case find (\<lambda>file. isl (read_csv file))
                   (matched_files glob ''pred-*'' dataset_id output_root) of
              Some bad \<Rightarrow> Inl (projl (read_csv bad))
            | None \<Rightarrow>
                if matched_files glob ''pred-*'' dataset_id output_root = [] then Inl ValueError
                else pd_concat (tagged_frames glob read_csv ''pred-*'' dataset_id output_root))
         \<and> (isl (load_recs glob read_csv dataset_id output_root) \<longleftrightarrow>
              matched_files glob ''recs-*'' dataset_id output_root = []
              \<or> (\<exists>file \<in> set (matched_files glob ''recs-*'' dataset_id output_root).
                    isl (read_csv file)))
         \<and> (isl (load_preds glob read_csv dataset_id output_root) \<longleftrightarrow>
              matched_files glob ''pred-*'' dataset_id output_root = []
              \<or> (\<exists>file \<in> set (matched_files glob ''pred-*'' dataset_id output_root).
                    isl (read_csv file)))
         \<and> (dirs_of glob dataset_id output_root = [] \<longrightarrow>
              load_recs glob read_csv dataset_id output_root = Inl ValueError
              \<and> load_preds glob read_csv dataset_id output_root = Inl ValueError)"
proof -
  have gen: "(case read_dirs glob read_csv pat (dirs_of glob dataset_id output_root) [] of
            Inl e \<Rightarrow> Inl e | Inr fs \<Rightarrow> pd_concat fs) =
         (case find (\<lambda>file. isl (read_csv file)) (matched_files glob pat dataset_id output_root) of
            Some bad \<Rightarrow> Inl (projl (read_csv bad))
          | None \<Rightarrow>
              if matched_files glob pat dataset_id output_root = [] then Inl ValueError
              else pd_concat (tagged_frames glob read_csv pat dataset_id output_root))" for pat
  proof -
    have "tagged_frames glob read_csv pat dataset_id output_root = []"
      if "matched_files glob pat dataset_id output_root = []"
      using that length_tagged_frames [of glob read_csv pat dataset_id output_root] by simp
    then show ?thesis
      using load_outcome_generic [OF assms, of read_csv pat]
      by (auto simp add: pd_concat_def split: option.splits)
  qed
  have fails: "isl (case read_dirs glob read_csv pat (dirs_of glob dataset_id output_root) [] of
            Inl e \<Rightarrow> Inl e | Inr fs \<Rightarrow> pd_concat fs) \<longleftrightarrow>
         matched_files glob pat dataset_id output_root = []
         \<or> (\<exists>file \<in> set (matched_files glob pat dataset_id output_root). isl (read_csv file))" for pat
  proof (cases "find (\<lambda>file. isl (read_csv file)) (matched_files glob pat dataset_id output_root)")
    case None
    then have no: "\<not> (\<exists>file \<in> set (matched_files glob pat dataset_id output_root). isl (read_csv file))"
      by (simp add: find_None_all)
    have "tagged_frames glob read_csv pat dataset_id output_root \<noteq> []"
      if "matched_files glob pat dataset_id output_root \<noteq> []"
      using that length_tagged_frames [of glob read_csv pat dataset_id output_root] by auto
    then show ?thesis
      using gen [of pat] None no by (auto simp add: pd_concat_def Let_def)
  next
    case (Some bad)
    then have "\<exists>file \<in> set (matched_files glob pat dataset_id output_root). isl (read_csv file)"
      using find_None_all [of "\<lambda>file. isl (read_csv file)" "matched_files glob pat dataset_id output_root"]
      by auto
    then show ?thesis using gen [of pat] Some by simp
  qed
  have none: "matched_files glob pat dataset_id output_root = []"
    if "dirs_of glob dataset_id output_root = []" for pat
    using that by (simp add: matched_files_def)
  have recs: "load_recs glob read_csv dataset_id output_root =
           (case find (\<lambda>file. isl (read_csv file))
                   (matched_files glob ''recs-*'' dataset_id output_root) of
              Some bad \<Rightarrow> Inl (projl (read_csv bad))
            | None \<Rightarrow>
                if matched_files glob ''recs-*'' dataset_id output_root = [] then Inl ValueError
                else pd_concat (tagged_frames glob read_csv ''recs-*'' dataset_id output_root))"
    unfolding load_recs_def by (rule gen)
  have preds: "load_preds glob read_csv dataset_id output_root =
           (case find (\<lambda>file. isl (read_csv file))
                   (matched_files glob ''pred-*'' dataset_id output_root) of
              Some bad \<Rightarrow> Inl (projl (read_csv bad))
            | None \<Rightarrow>
                if matched_files glob ''pred-*'' dataset_id output_root = [] then Inl ValueError
                else pd_concat (tagged_frames glob read_csv ''pred-*'' dataset_id output_root))"
    unfolding load_preds_def by (rule gen)
  have fr: "isl (load_recs glob read_csv dataset_id output_root) \<longleftrightarrow>
              matched_files glob ''recs-*'' dataset_id output_root = []
              \<or> (\<exists>file \<in> set (matched_files glob ''recs-*'' dataset_id output_root).
                    isl (read_csv file))"
    unfolding load_recs_def by (rule fails)
  have fp: "isl (load_preds glob read_csv dataset_id output_root) \<longleftrightarrow>
              matched_files glob ''pred-*'' dataset_id output_root = []
              \<or> (\<exists>file \<in> set (matched_files glob ''pred-*'' dataset_id output_root).
                    isl (read_csv file))"
    unfolding load_preds_def by (rule fails)
  have empty: "load_recs glob read_csv dataset_id output_root = Inl ValueError
              \<and> load_preds glob read_csv dataset_id output_root = Inl ValueError"
    if "dirs_of glob dataset_id output_root = []"
    using none [OF that] by (simp add: recs preds)
  show ?thesis
    by (intro conjI impI) (use recs preds fr fp empty in \<open>assumption | simp\<close>)+
qed

theorem load_outcome_witness:
  "load_recs glob_tree read_csv_held ''ml100k'' broken_root = Inl (LibraryError ''ParserError'')
   \<and> load_preds glob_tree read_csv_held ''ml100k'' example_root = Inl ValueError
   \<and> load_recs glob_tree read_csv_held ''ml1m'' example_root = Inl ValueError
   \<and> \<not> isl (load_recs glob_tree read_csv_held ''ml100k'' example_root)"
proof -
  have a: "\<forall>fld \<in> set (dirs_of glob_tree ''ml100k'' broken_root). CHR ''-'' \<in> set (name fld)"
    by (simp add: dirs_of_def glob_tree_def broken_root_def)
  have b: "\<forall>fld \<in> set (dirs_of glob_tree ''ml100k'' example_root). CHR ''-'' \<in> set (name fld)"
    by (simp add: dirs_of_def glob_tree_def example_root_def)
  have c: "\<forall>fld \<in> set (dirs_of glob_tree ''ml1m'' example_root). CHR ''-'' \<in> set (name fld)"
    by (simp add: dirs_of_def glob_tree_def example_root_def)
  show ?thesis
    using load_outcome [OF a, of read_csv_held] load_outcome [OF b, of read_csv_held]
      load_outcome [OF c, of read_csv_held]
    by (simp add: matched_files_def tagged_frames_def pd_concat_def Let_def dirs_of_def glob_tree_def
          broken_root_def example_root_def)
qed

text \<open>
  The claim as the specification words it (a matched directory with zero matching files
  makes the load fail) fails on an output directory with two run directories of which one
  is empty: the load returns the table of the other.
\<close>

theorem empty_directory_counterexample:
  "dirs_of glob_tree ''ml100k'' example_root =
     [Dir ''ml100k-ALS'' [File ''recs-1.csv'' (Inr one_row)], Dir ''ml100k-Pop'' []]
   \<and> glob_tree (Dir ''ml100k-Pop'' [] :: (error + frame) path) ''recs-*'' = []
   \<and> load_recs glob_tree read_csv_held ''ml100k'' example_root =
       Inr \<lparr>columns = [''user'', ''item'', ''score'', ''dataset'', ''algorithm''],
            rows = [[VNum (Val 1), VNum (Val 10), VNum (Val 4), VStr ''ml100k'', VStr ''ALS'']]\<rparr>"
  by (simp add: load_recs_def dirs_of_def glob_tree_def example_root_def one_row_def
        getitem_def setitem_def pd_concat_def realign_def first_seen_def)

end
